theory Spec2Isabelle
  imports Complex_Main
begin

section \<open>Units, quantities and errors\<close>

text \<open>
  The module \<^verbatim>\<open>pyLaserPulse/units_utils.py\<close> works on the objects of the astropy units
  library: named units, composite units and quantities. The model keeps of them what the
  module reads: a named unit has a \<^verbatim>\<open>name\<close>, a \<^verbatim>\<open>physical_type\<close> and its class
  (\<^verbatim>\<open>isinstance(u, PrefixUnit)\<close>); a composite unit has a \<^verbatim>\<open>scale\<close> and its
  \<^verbatim>\<open>bases\<close> and \<^verbatim>\<open>powers\<close>, kept as one list of (base, power) pairs. Bases are named
  units, as the annotations of \<^verbatim>\<open>fixhertz_item\<close> say. Numbers (scales, powers, values)
  are real numbers: the model follows the arithmetic of the code, not the rounding of
  floating point.

  Every exception the module can raise is a value of \<open>error\<close>. \<open>NonFinite\<close> stands for a
  computation that leaves the finite reals (\<^verbatim>\<open>np.mean([])\<close> is nan), which the model
  does not follow further.
\<close>

datatype error =
    TypeError_not_composite
  | TypeError_bases
  | ValueError_prefix string
  | ValueError_exponent int
  | IndexError
  | ZeroDivisionError
  | AttributeError
  | NonFinite

record named_unit =
  name :: string
  physical_type :: string
  prefix_unit :: bool

datatype unitbase =
    NamedUnit named_unit
  | CompositeUnit real "(named_unit \<times> real) list"

text \<open>
  \<^verbatim>\<open>scale\<close>, \<^verbatim>\<open>bases\<close> and \<^verbatim>\<open>powers\<close> are attributes of every unit of the library: a
  named unit has scale 1, itself as only base, and power 1.
\<close>

fun scale :: "unitbase \<Rightarrow> real" where
  "scale (NamedUnit b) = 1"
| "scale (CompositeUnit s ps) = s"

fun pairs :: "unitbase \<Rightarrow> (named_unit \<times> real) list" where
  "pairs (NamedUnit b) = [(b, 1)]"
| "pairs (CompositeUnit s ps) = ps"

definition bases :: "unitbase \<Rightarrow> named_unit list" where
  "bases u = map fst (pairs u)"

definition powers :: "unitbase \<Rightarrow> real list" where
  "powers u = map snd (pairs u)"

text \<open>The payload of a quantity: a scalar, or an array of numbers.\<close>

datatype payload = Scalar real | Array "real list"

text \<open>
  What \<^verbatim>\<open>fixhertz\<close> and \<^verbatim>\<open>optimize_unit\<close> accept: a quantity, a unit, or anything else
  (a plain number), of any type \<open>'a\<close>.
\<close>

datatype 'a obj =
    Number 'a
  | UnitObj unitbase
  | Quantity payload unitbase

text \<open>The units of the library that the module names.\<close>

definition second :: named_unit where
  "second = \<lparr>name = ''s'', physical_type = ''time'', prefix_unit = False\<rparr>"

definition hertz :: named_unit where
  "hertz = \<lparr>name = ''Hz'', physical_type = ''frequency'', prefix_unit = False\<rparr>"

definition attosecond :: named_unit where
  "attosecond = \<lparr>name = ''attosecond'', physical_type = ''time'', prefix_unit = True\<rparr>"

definition exahertz :: named_unit where
  "exahertz = \<lparr>name = ''EHz'', physical_type = ''frequency'', prefix_unit = True\<rparr>"

definition kilogram :: named_unit where
  "kilogram = \<lparr>name = ''kg'', physical_type = ''mass'', prefix_unit = False\<rparr>"

definition centimeter :: named_unit where
  "centimeter = \<lparr>name = ''cm'', physical_type = ''length'', prefix_unit = False\<rparr>"


section \<open>The prefix table\<close>

definition si_prefixes :: string where
  "si_prefixes = ''yzafpnumkMGTPEZY''"

text \<open>\<^verbatim>\<open>tuple(x for x in range(-24, 25, 3) if x != 0)\<close>\<close>

definition si_exponents :: "int list" where
  "si_exponents = filter (\<lambda>x. x \<noteq> 0) (map (\<lambda>k. 3 * int k - 24) [0..<17])"

definition attosecond_exponent :: int where
  "attosecond_exponent = -18"

text \<open>The two dictionaries; a key of \<open>prefix_map\<close> is a string of one character.\<close>

definition prefix_map :: "(string \<times> int) list" where
  "prefix_map = zip (map (\<lambda>c. [c]) si_prefixes) si_exponents"

definition exponent_map :: "(int \<times> string) list" where
  "exponent_map = map (\<lambda>(pref, e). (e, pref)) prefix_map"

definition pref_to_expon :: "string \<Rightarrow> error + int" where
  "pref_to_expon pref =
     (case map_of prefix_map pref of
        None \<Rightarrow> Inl (ValueError_prefix pref)
      | Some expon \<Rightarrow> Inr expon)"

definition expon_to_pref :: "int \<Rightarrow> error + string" where
  "expon_to_pref expon =
     (case map_of exponent_map expon of
        None \<Rightarrow> Inl (ValueError_exponent expon)
      | Some pref \<Rightarrow> Inr pref)"

definition is_close :: "real \<Rightarrow> real \<Rightarrow> real \<Rightarrow> real \<Rightarrow> bool" where
  "is_close x y rtol atol \<longleftrightarrow> \<bar>x - y\<bar> \<le> atol + rtol * \<bar>y\<bar>"

text \<open>The defaults of \<open>is_close\<close> are \<^verbatim>\<open>rtol = 1e-6\<close> and \<^verbatim>\<open>atol = 1e-10\<close>.\<close>

definition is_unity :: "real \<Rightarrow> bool" where
  "is_unity x = is_close x 1 (1 / 10 ^ 6) (1 / 10 ^ 10)"

definition is_time_freq :: "named_unit \<Rightarrow> bool" where
  "is_time_freq x \<longleftrightarrow> physical_type x = ''time'' \<or> physical_type x = ''frequency''"

text \<open>
  Python's \<^verbatim>\<open>s.find(sub)\<close>: the lowest index where \<open>sub\<close> starts in \<open>s\<close>, and -1 when
  it does not occur. \<^verbatim>\<open>s[i]\<close> counts a negative index from the end and raises
  IndexError out of range.
\<close>

fun str_find :: "string \<Rightarrow> string \<Rightarrow> int" where
  "str_find [] sub = (if sub = [] then 0 else -1)"
| "str_find (c # s) sub =
     (if take (length sub) (c # s) = sub then 0
      else (let r = str_find s sub in if r < 0 then -1 else r + 1))"

definition str_index :: "string \<Rightarrow> int \<Rightarrow> error + string" where
  "str_index s i =
     (let n = int (length s); j = (if i < 0 then n + i else i)
      in if 0 \<le> j \<and> j < n then Inr [s ! nat j] else Inl IndexError)"

definition flip_prefix :: "string \<Rightarrow> error + string" where
  "flip_prefix pref =
     (let idx = int (length si_prefixes) - 1 - str_find si_prefixes pref
      in str_index si_prefixes idx)"

section \<open>Seconds and hertz\<close>

text \<open>
  \<^verbatim>\<open>units.Unit(name)\<close> looks a name up in the registry of the library. The registry is
  not part of the module: the functions that call it take it as the parameter \<open>Unit\<close>.
\<close>

definition fixhertz_item ::
  "(string \<Rightarrow> named_unit) \<Rightarrow> named_unit \<Rightarrow> real \<Rightarrow> error + (named_unit \<times> real)" where
  "fixhertz_item Unit base pwr =
     (if pwr \<ge> 0 \<or> \<not> is_time_freq base then Inr (base, pwr)
      else if \<not> prefix_unit base then
        (if base = second then Inr (hertz, - pwr)
         else if base = hertz then Inr (second, - pwr)
         else Inr (base, pwr))
      else if base = attosecond then Inr (exahertz, - pwr)
      else
        (case name base of
           [] \<Rightarrow> Inl IndexError
         | c # base_name \<Rightarrow>
             (case flip_prefix [c] of
                Inl e \<Rightarrow> Inl e
              | Inr new_prefix \<Rightarrow>
                  if base_name = ''s'' then Inr (Unit (new_prefix @ ''Hz''), - pwr)
                  else if base_name = ''Hz'' then Inr (Unit (new_prefix @ ''s''), - pwr)
                  else Inr (base, pwr))))"

text \<open>\<^verbatim>\<open>tuple(map(fixhertz_item, bases, powers))\<close>: the first exception ends the loop.\<close>

fun map_items ::
  "(named_unit \<Rightarrow> real \<Rightarrow> error + (named_unit \<times> real)) \<Rightarrow> (named_unit \<times> real) list
     \<Rightarrow> error + (named_unit \<times> real) list" where
  "map_items f [] = Inr []"
| "map_items f ((b, p) # ps) =
     (case f b p of
        Inl e \<Rightarrow> Inl e
      | Inr x \<Rightarrow> (case map_items f ps of Inl e \<Rightarrow> Inl e | Inr xs \<Rightarrow> Inr (x # xs)))"

definition fixhertz_comp :: "(string \<Rightarrow> named_unit) \<Rightarrow> unitbase \<Rightarrow> error + unitbase" where
  "fixhertz_comp Unit u2 =
     (case map_items (fixhertz_item Unit) (pairs u2) of
        Inl e \<Rightarrow> Inl e
      | Inr [] \<Rightarrow> Inr u2
      | Inr ((new_base, new_power) # rest) \<Rightarrow>
          if is_unity (scale u2) \<and> length ((new_base, new_power) # rest) = 1 \<and> is_unity new_power
          then Inr (NamedUnit new_base)
          else Inr (CompositeUnit (scale u2) ((new_base, new_power) # rest)))"

definition fixhertz :: "(string \<Rightarrow> named_unit) \<Rightarrow> 'a obj \<Rightarrow> error + 'a obj" where
  "fixhertz Unit x =
     (case x of
        Quantity v u \<Rightarrow>
          (case fixhertz_comp Unit u of Inl e \<Rightarrow> Inl e | Inr u' \<Rightarrow> Inr (Quantity v u'))
      | UnitObj (CompositeUnit s ps) \<Rightarrow>
          (case fixhertz_comp Unit (CompositeUnit s ps) of
             Inl e \<Rightarrow> Inl e
           | Inr u' \<Rightarrow> Inr (UnitObj u'))
      | _ \<Rightarrow> Inr x)"

section \<open>Choosing the prefix\<close>

text \<open>
  The name and the exponent that \<open>opt_single_base\<close> reads off the base (its chain of
  \<^verbatim>\<open>if unit == ...\<close>), then the new exponent and the new value. The value is
  \<^verbatim>\<open>abs(scale)\<close>; at 0 the logarithm is \<^verbatim>\<open>-inf\<close>, which \<^verbatim>\<open>max(-24, ...)\<close> turns
  into -24.
\<close>

definition unit_name_expon :: "named_unit \<Rightarrow> error + (string \<times> int)" where
  "unit_name_expon unit =
     (if unit = attosecond then Inr (''s'', attosecond_exponent)
      else if unit = kilogram then Inr (''g'', 3)
      else if unit = centimeter then Inr (''m'', -2)
      else if prefix_unit unit then
        (case name unit of
           [] \<Rightarrow> Inl IndexError
         | c # unit_name \<Rightarrow>
             (case pref_to_expon [c] of Inl e \<Rightarrow> Inl e | Inr expon \<Rightarrow> Inr (unit_name, expon)))
      else Inr (name unit, 0))"

definition new_expon :: "int \<Rightarrow> real \<Rightarrow> real \<Rightarrow> int" where
  "new_expon expon val pwr =
     (if val = 0 then -24
      else min 24 (max (-24) (\<lfloor>(of_int expon + log 10 (val powr (1 / pwr))) / 3\<rfloor> * 3)))"

definition new_value :: "int \<Rightarrow> real \<Rightarrow> real \<Rightarrow> real" where
  "new_value expon val pwr =
     val * 10 powr (of_int expon * pwr - of_int (new_expon expon val pwr) * pwr)"

definition opt_single_base :: "(string \<Rightarrow> named_unit) \<Rightarrow> unitbase \<Rightarrow> error + unitbase" where
  "opt_single_base Unit simple_unit =
     (case simple_unit of
        NamedUnit b \<Rightarrow> Inl TypeError_not_composite
      | CompositeUnit sc ps \<Rightarrow>
          if length ps > 1 then Inl TypeError_bases
          else
            (let sign = (if sc \<ge> 0 then 1 else -1); val = \<bar>sc\<bar> in
             case ps of
               [] \<Rightarrow> Inl IndexError
             | (unit, pwr) # _ \<Rightarrow>
                 (case unit_name_expon unit of
                    Inl e \<Rightarrow> Inl e
                  | Inr (unit_name, expon) \<Rightarrow>
                      if pwr = 0 then Inl ZeroDivisionError
                      else if val = 0 \<and> pwr < 0 then Inl ZeroDivisionError
                      else
                        (case (if new_expon expon val pwr \<noteq> 0
                               then expon_to_pref (new_expon expon val pwr) else Inr [])
                         of
                           Inl e \<Rightarrow> Inl e
                         | Inr new_prefix \<Rightarrow>
                             (let new_unit_name = new_prefix @ unit_name;
                                  new_unit = (if new_unit_name = ''as'' then attosecond
                                              else Unit new_unit_name)
                              in Inr (CompositeUnit (sign * new_value expon val pwr)
                                        [(new_unit, pwr)]))))))"

definition opt_named_unit :: "unitbase \<Rightarrow> unitbase" where
  "opt_named_unit unit = unit"

text \<open>
  \<open>opt_comp_units\<close> reads \<^verbatim>\<open>unit.bases[0]\<close> first. A base of the model is a named unit,
  so the test \<^verbatim>\<open>isinstance(unit.bases[0], CompositeUnit)\<close> is false and the function
  goes on with the first pair alone.
\<close>

definition opt_comp_units :: "(string \<Rightarrow> named_unit) \<Rightarrow> unitbase \<Rightarrow> error + unitbase" where
  "opt_comp_units Unit unit =
     (case pairs unit of
        [] \<Rightarrow> Inl IndexError
      | (b, p) # rest \<Rightarrow>
          (case opt_single_base Unit (CompositeUnit (scale unit) [(b, p)]) of
             Inl e \<Rightarrow> Inl e
           | Inr new_base \<Rightarrow>
               Inr (CompositeUnit (scale new_base) (pairs new_base @ rest))))"

section \<open>Quantities\<close>

text \<open>
  \<^verbatim>\<open>np.mean([abs(x) for x in value])\<close>: a scalar cannot be iterated, and the
  \<^verbatim>\<open>except TypeError\<close> takes the value itself. The mean of an empty array is nan.
\<close>

definition mean_value :: "payload \<Rightarrow> real option" where
  "mean_value v =
     (case v of
        Scalar x \<Rightarrow> Some x
      | Array xs \<Rightarrow>
          if xs = [] then None else Some (sum_list (map abs xs) / real (length xs)))"

fun divide_payload :: "payload \<Rightarrow> real \<Rightarrow> payload" where
  "divide_payload (Scalar x) m = Scalar (x / m)"
| "divide_payload (Array xs) m = Array (map (\<lambda>x. x / m) xs)"

fun times_payload :: "payload \<Rightarrow> real \<Rightarrow> payload" where
  "times_payload (Scalar x) k = Scalar (x * k)"
| "times_payload (Array xs) k = Array (map (\<lambda>x. x * k) xs)"

definition optimize_unit ::
  "(string \<Rightarrow> named_unit) \<Rightarrow> 'a obj \<Rightarrow> bool \<Rightarrow> error + 'a obj" where
  "optimize_unit Unit quant fix_time_freq =
     (case quant of
        UnitObj (NamedUnit b) \<Rightarrow> Inr (UnitObj (opt_named_unit (NamedUnit b)))
      | UnitObj (CompositeUnit s ps) \<Rightarrow>
          (case opt_comp_units Unit (CompositeUnit s ps) of
             Inl e \<Rightarrow> Inl e
           | Inr u \<Rightarrow> Inr (UnitObj u))
      | Number x \<Rightarrow> Inr quant
      | Quantity v unit \<Rightarrow>
          (case mean_value v of
             None \<Rightarrow> Inl NonFinite
           | Some m \<Rightarrow>
               if m = 0 then Inr quant
               else
                 (let scaled_value = divide_payload v m;
                      new_unit = (case unit of
                                    CompositeUnit s ps \<Rightarrow> CompositeUnit (m * s) ps
                                  | NamedUnit b \<Rightarrow> CompositeUnit m [(b, 1)])
                  in case (if fix_time_freq then fixhertz Unit (UnitObj new_unit :: 'a obj)
                           else Inr (UnitObj new_unit))
                     of
                       Inl e \<Rightarrow> Inl e
                     | Inr (UnitObj fixed_unit) \<Rightarrow>
                         (case opt_comp_units Unit fixed_unit of
                            Inl e \<Rightarrow> Inl e
                          | Inr opt_unit \<Rightarrow>
                              Inr (Quantity (times_payload scaled_value (scale opt_unit))
                                     (CompositeUnit 1 (pairs opt_unit))))
                     | Inr _ \<Rightarrow> Inl AttributeError)))"

text \<open>
  A registry for closed instances: the metre, the second and the hertz, bare or with one
  of the sixteen prefixes; any other name is a unit of unknown type.
\<close>

definition symbol_type :: "string \<Rightarrow> string" where
  "symbol_type s =
     (if s = ''m'' then ''length'' else if s = ''s'' then ''time''
      else if s = ''Hz'' then ''frequency'' else ''unknown'')"

definition registry :: "string \<Rightarrow> named_unit" where
  "registry n =
     (case n of
        [] \<Rightarrow> \<lparr>name = n, physical_type = ''unknown'', prefix_unit = False\<rparr>
      | c # s \<Rightarrow>
          if c \<in> set si_prefixes \<and> symbol_type s \<noteq> ''unknown''
          then \<lparr>name = n, physical_type = symbol_type s, prefix_unit = True\<rparr>
          else \<lparr>name = n, physical_type = symbol_type n, prefix_unit = False\<rparr>)"

section \<open>What a unit denotes\<close>




section \<open>The prefix table: lookups and flip\<close>

lemma si_exponents_eq:
  "si_exponents = [-24, -21, -18, -15, -12, -9, -6, -3, 3, 6, 9, 12, 15, 18, 21, 24]"
  by (simp add: si_exponents_def upt_rec)

lemma prefix_map_eq:
  "prefix_map = [(''y'', -24), (''z'', -21), (''a'', -18), (''f'', -15), (''p'', -12), (''n'', -9),
     (''u'', -6), (''m'', -3), (''k'', 3), (''M'', 6), (''G'', 9), (''T'', 12), (''P'', 15),
     (''E'', 18), (''Z'', 21), (''Y'', 24)]"
  by (simp add: prefix_map_def si_prefixes_def si_exponents_eq)

lemma exponent_map_eq:
  "exponent_map = [(-24, ''y''), (-21, ''z''), (-18, ''a''), (-15, ''f''), (-12, ''p''), (-9, ''n''),
     (-6, ''u''), (-3, ''m''), (3, ''k''), (6, ''M''), (9, ''G''), (12, ''T''), (15, ''P''),
     (18, ''E''), (21, ''Z''), (24, ''Y'')]"
  by (simp add: exponent_map_def prefix_map_eq)

lemma upt_16: "[0..<16] = [0, 1, 2, 3, 4, 5, 6, 7, 8, 9, 10, 11, 12, 13, 14, 15]"
  by (simp add: upt_rec)

lemma flip_prefix_nth:
  "\<forall>i \<in> set [0..<16]. flip_prefix [si_prefixes ! i] = Inr [si_prefixes ! (15 - i)]"
  unfolding upt_16 by (simp add: flip_prefix_def str_index_def si_prefixes_def)

lemma pref_to_expon_nth:
  "\<forall>i \<in> set [0..<16]. pref_to_expon [si_prefixes ! i] = Inr (si_exponents ! i)
      \<and> si_exponents ! (15 - i) = - (si_exponents ! i)"
  unfolding upt_16 by (simp add: pref_to_expon_def prefix_map_eq si_prefixes_def si_exponents_eq)

lemma in_table_iff:
  "(3 dvd e \<and> -24 \<le> e \<and> e \<le> 24 \<and> e \<noteq> 0) \<longleftrightarrow>
     e \<in> {-24, -21, -18, -15, -12, -9, -6, -3, 3, 6, 9, 12, 15, 18, 21, 24::int}"
  by (simp only: insert_iff empty_iff) presburger

lemma expon_to_pref_char:
  "expon_to_pref e =
     (if 3 dvd e \<and> -24 \<le> e \<and> e \<le> 24 \<and> e \<noteq> 0
      then Inr [si_prefixes ! nat ((e + 24) div 3 - (if e > 0 then 1 else 0))]
      else Inl (ValueError_exponent e))"
proof (cases "3 dvd e \<and> -24 \<le> e \<and> e \<le> 24 \<and> e \<noteq> 0")
  case True
  then have "e \<in> {-24, -21, -18, -15, -12, -9, -6, -3, 3, 6, 9, 12, 15, 18, 21, 24}"
    by (simp only: in_table_iff)
  then show ?thesis
    by (auto simp: expon_to_pref_def exponent_map_eq si_prefixes_def)
next
  case False
  then have "e \<notin> {-24, -21, -18, -15, -12, -9, -6, -3, 3, 6, 9, 12, 15, 18, 21, 24}"
    using in_table_iff [of e] by blast
  then have "map_of exponent_map e = None"
    by (simp add: exponent_map_eq)
  with False show ?thesis
    by (simp add: expon_to_pref_def)
qed

text \<open>
  C8. Flipping a prefix of \<open>si_prefixes\<close> twice gives the prefix back: the prefix at index
  \<open>i\<close> (in ascending order of the exponents) goes to the one at index \<open>15 - i\<close>, whose
  exponent is the negation, and that one goes back to the prefix at index \<open>i\<close>.
\<close>

theorem flip_prefix_involution:
  assumes "i < length si_prefixes"
  shows "flip_prefix [si_prefixes ! i] = Inr [si_prefixes ! (15 - i)]
       \<and> (case flip_prefix [si_prefixes ! i] of Inl e \<Rightarrow> Inl e | Inr q \<Rightarrow> flip_prefix q)
           = Inr [si_prefixes ! i]
       \<and> pref_to_expon [si_prefixes ! i] = Inr (si_exponents ! i)
       \<and> pref_to_expon [si_prefixes ! (15 - i)] = Inr (- (si_exponents ! i))"
proof -
  have i: "i \<in> set [0..<16]" and j: "15 - i \<in> set [0..<16]"
    using assms by (simp_all add: si_prefixes_def)
  have inv: "15 - (15 - i) = i"
    using assms by (simp add: si_prefixes_def)
  have f1: "flip_prefix [si_prefixes ! i] = Inr [si_prefixes ! (15 - i)]"
    using flip_prefix_nth i by blast
  have f2: "flip_prefix [si_prefixes ! (15 - i)] = Inr [si_prefixes ! i]"
    using flip_prefix_nth j inv by metis
  have e1: "pref_to_expon [si_prefixes ! i] = Inr (si_exponents ! i)"
    and e2: "si_exponents ! (15 - i) = - (si_exponents ! i)"
    using pref_to_expon_nth i by blast+
  have e3: "pref_to_expon [si_prefixes ! (15 - i)] = Inr (si_exponents ! (15 - i))"
    using pref_to_expon_nth j by blast
  show ?thesis
    by (simp add: f1 f2 e1 e2 e3)
qed

theorem flip_prefix_involution_witness:
  "flip_prefix ''k'' = Inr ''m'' \<and> flip_prefix ''m'' = Inr ''k''
     \<and> pref_to_expon ''k'' = Inr 3 \<and> pref_to_expon ''m'' = Inr (-3)"
proof -
  have "(8::nat) < length si_prefixes" by (simp add: si_prefixes_def)
  from flip_prefix_involution [OF this] show ?thesis
    by (auto simp add: si_prefixes_def si_exponents_eq)
qed

text \<open>
  C5, as amended. \<open>expon_to_pref\<close> returns a prefix exactly for the nonzero multiples of 3
  from -24 to 24, and that prefix has the exponent; for every other exponent, 0 among
  them, it raises the ValueError of the lookup. The table has no entry for 0: a caller
  maps 0 to the empty prefix itself.
\<close>

theorem expon_to_pref_domain:
  "if 3 dvd e \<and> -24 \<le> e \<and> e \<le> 24 \<and> e \<noteq> 0
   then \<exists>pref. expon_to_pref e = Inr pref \<and> pref_to_expon pref = Inr e
   else expon_to_pref e = Inl (ValueError_exponent e)"
proof (cases "3 dvd e \<and> -24 \<le> e \<and> e \<le> 24 \<and> e \<noteq> 0")
  case True
  then have "e \<in> {-24, -21, -18, -15, -12, -9, -6, -3, 3, 6, 9, 12, 15, 18, 21, 24}"
    by (simp only: in_table_iff)
  then have "\<exists>pref. expon_to_pref e = Inr pref \<and> pref_to_expon pref = Inr e"
    by (auto simp: expon_to_pref_def exponent_map_eq pref_to_expon_def prefix_map_eq)
  with True show ?thesis by simp
next
  case False
  have "expon_to_pref e = Inl (ValueError_exponent e)"
    by (simp only: expon_to_pref_char [of e] False if_False)
  then show ?thesis
    by (simp only: False if_False)
qed

theorem expon_to_pref_domain_witness:
  "(\<exists>pref. expon_to_pref 3 = Inr pref \<and> pref_to_expon pref = Inr 3)
     \<and> expon_to_pref 25 = Inl (ValueError_exponent 25)"
  using expon_to_pref_domain [of 3] expon_to_pref_domain [of 25]
  by simp

text \<open>
  The claim C5 as first stated fails at 0, a multiple of 3 between -24 and 24.
\<close>

theorem expon_to_pref_zero_counterexample:
  "3 dvd (0::int) \<and> (-24::int) \<le> 0 \<and> (0::int) \<le> 24
     \<and> expon_to_pref 0 = Inl (ValueError_exponent 0)"
  by (simp add: expon_to_pref_def exponent_map_eq)


section \<open>The single-base optimizer\<close>














lemma registry_km:
  "registry ''km'' = \<lparr>name = ''km'', physical_type = ''length'', prefix_unit = True\<rparr>"
  by (simp add: registry_def symbol_type_def si_prefixes_def)







section \<open>The composite optimizer\<close>



text \<open>
  C4. The check of \<open>opt_single_base\<close> is \<^verbatim>\<open>len(simple_unit.bases) > 1\<close>: two or more
  pairs raise the TypeError of the contract, and no pair at all passes the check and
  raises IndexError at \<^verbatim>\<open>simple_unit.bases[0]\<close>.
\<close>

theorem opt_single_base_zero_bases:
  "opt_single_base Unit (CompositeUnit s []) = Inl IndexError
   \<and> opt_single_base Unit (CompositeUnit s (x # y # ps)) = Inl TypeError_bases
   \<and> opt_single_base Unit (CompositeUnit s []) \<noteq> Inl TypeError_bases"
  by (simp add: opt_single_base_def)


section \<open>The flip between seconds and hertz\<close>

lemma is_unity_one: "is_unity 1"
  by (simp add: is_unity_def is_close_def)

lemma is_unity_nat: "0 < n \<Longrightarrow> is_unity (real n) \<longleftrightarrow> n = 1"
proof
  assume n: "0 < n" and u: "is_unity (real n)"
  show "n = 1"
  proof (rule ccontr)
    assume "n \<noteq> 1"
    with n have "2 \<le> real n" by simp
    with u show False by (simp add: is_unity_def is_close_def)
  qed
next
  assume "n = 1"
  then show "is_unity (real n)" by (simp add: is_unity_one)
qed

lemma fixhertz_item_second:
  "p < 0 \<Longrightarrow> fixhertz_item Unit second p = Inr (hertz, - p)"
  by (simp add: fixhertz_item_def is_time_freq_def second_def)

lemma fixhertz_item_nonneg:
  "0 \<le> p \<Longrightarrow> fixhertz_item Unit b p = Inr (b, p)"
  by (simp add: fixhertz_item_def)

text \<open>
  C3, as amended. For a positive integer \<open>n\<close> and any payload \<open>v\<close>, \<open>fixhertz\<close> turns the
  quantity \<open>v\<close> of unit \<open>second\<close> to the power \<open>-n\<close> into the quantity \<open>v\<close> of unit \<open>hertz\<close> to
  the power \<open>n\<close> (the bare unit \<open>hertz\<close> when \<open>n = 1\<close>), and \<open>fixhertz\<close> on that result returns
  it unchanged: a power that is not negative is never flipped. The payload is the same
  throughout.
\<close>

theorem fixhertz_second_to_hertz:
  assumes "0 < n"
  shows "\<exists>u. fixhertz Unit (Quantity v (CompositeUnit 1 [(second, - real n)]) :: 'a obj)
                = Inr (Quantity v u)
            \<and> u = (if n = 1 then NamedUnit hertz else CompositeUnit 1 [(hertz, real n)])
            \<and> scale u = 1 \<and> pairs u = [(hertz, real n)]
            \<and> fixhertz Unit (Quantity v u :: 'a obj) = Inr (Quantity v u)"
proof -
  define u where "u = (if n = 1 then NamedUnit hertz else CompositeUnit 1 [(hertz, real n)])"
  have neg: "- real n < 0" using assms by simp
  have first: "fixhertz_comp Unit (CompositeUnit 1 [(second, - real n)]) = Inr u"
    using assms
    by (simp add: fixhertz_comp_def fixhertz_item_second [OF neg] is_unity_one is_unity_nat u_def)
  have again: "fixhertz_comp Unit u = Inr u"
    using assms
    by (simp add: fixhertz_comp_def fixhertz_item_nonneg is_unity_one is_unity_nat u_def)
  have sp: "scale u = 1 \<and> pairs u = [(hertz, real n)]"
    by (simp add: u_def)
  show ?thesis
    using first again sp by (intro exI [of _ u]) (simp add: fixhertz_def u_def)
qed

theorem fixhertz_second_to_hertz_witness:
  "(0::nat) < 3
   \<and> fixhertz registry (Quantity (Scalar (-2)) (CompositeUnit 1 [(second, -3)]) :: int obj)
       = Inr (Quantity (Scalar (-2)) (CompositeUnit 1 [(hertz, 3)]))
   \<and> fixhertz registry (Quantity (Scalar (-2)) (CompositeUnit 1 [(hertz, 3)]) :: int obj)
       = Inr (Quantity (Scalar (-2)) (CompositeUnit 1 [(hertz, 3)]))"
  using fixhertz_second_to_hertz [where ?'a = int, of 3 registry "Scalar (-2)"]
  by simp

text \<open>
  The claim C3 as first stated fails at \<open>n = 1\<close>: the second flip leaves \<open>hertz\<close> and does
  not give \<open>second\<close>.
\<close>

theorem fixhertz_twice_counterexample:
  "fixhertz registry (Quantity (Scalar 2) (CompositeUnit 1 [(second, -1)]) :: int obj)
       = Inr (Quantity (Scalar 2) (NamedUnit hertz))
   \<and> fixhertz registry (Quantity (Scalar 2) (NamedUnit hertz) :: int obj)
       = Inr (Quantity (Scalar 2) (NamedUnit hertz))
   \<and> pairs (NamedUnit hertz) \<noteq> [(second, 1)]"
proof -
  have "pairs (NamedUnit hertz) \<noteq> [(second, 1)]"
    by (simp add: hertz_def second_def)
  then show ?thesis
    by (simp add: fixhertz_def fixhertz_comp_def fixhertz_item_second fixhertz_item_nonneg
          is_unity_one)
qed


section \<open>The quantity optimizer\<close>

lemma fixhertz_comp_no_bases:
  "fixhertz_comp Unit (CompositeUnit s []) = Inr (CompositeUnit s [])"
  by (simp add: fixhertz_comp_def)

text \<open>
  C9. \<open>optimize_unit\<close> returns a plain number unchanged, and returns a quantity
  unchanged, payload and unit, when its mean value is exactly 0: a scalar 0, or an array
  whose elements are all 0.
\<close>

theorem optimize_unit_unchanged:
  "optimize_unit Unit (Number x :: 'a obj) fix_time_freq = Inr (Number x)
   \<and> (mean_value v = Some 0 \<longrightarrow>
        optimize_unit Unit (Quantity v u :: 'a obj) fix_time_freq = Inr (Quantity v u))
   \<and> mean_value (Scalar 0) = Some 0
   \<and> (xs \<noteq> [] \<and> (\<forall>x \<in> set xs. x = 0) \<longrightarrow> mean_value (Array xs) = Some 0)"
proof -
  have "sum_list (map abs xs) = 0" if "\<forall>x \<in> set xs. x = (0::real)"
    using that by (induction xs) simp_all
  then show ?thesis
    by (auto simp: optimize_unit_def mean_value_def)
qed

theorem optimize_unit_unchanged_witness:
  "optimize_unit registry (Number (3::int)) False = Inr (Number 3)
   \<and> mean_value (Array [0, 0]) = Some 0
   \<and> optimize_unit registry (Quantity (Array [0, 0]) (NamedUnit (registry ''km'')) :: int obj) True
       = Inr (Quantity (Array [0, 0]) (NamedUnit (registry ''km'')))"
proof -
  have m: "mean_value (Array [0, 0]) = Some 0"
    by (simp add: mean_value_def)
  from optimize_unit_unchanged [of registry "3::int" False "Array [0, 0]" "NamedUnit (registry ''km'')" "[0, 0]"]
       optimize_unit_unchanged [of registry "3::int" True "Array [0, 0]" "NamedUnit (registry ''km'')" "[0, 0]"]
  show ?thesis
    using m by simp
qed

text \<open>
  C10. On a quantity whose unit is a composite unit without pairs and whose mean value
  is not 0, \<open>optimize_unit\<close> reaches \<open>opt_comp_units\<close>, which reads \<^verbatim>\<open>unit.bases[0]\<close>
  without a guard: the call fails with IndexError, with or without \<open>fix_time_freq\<close>.
\<close>

theorem optimize_unit_no_bases:
  assumes "mean_value v = Some m" "m \<noteq> 0"
  shows "optimize_unit Unit (Quantity v (CompositeUnit s []) :: 'a obj) fix_time_freq
           = Inl IndexError
     \<and> opt_comp_units Unit (CompositeUnit (m * s) []) = Inl IndexError"
  using assms
  by (cases fix_time_freq)
     (simp_all add: optimize_unit_def fixhertz_def fixhertz_comp_no_bases opt_comp_units_def)

theorem optimize_unit_no_bases_witness:
  "mean_value (Scalar 5) = Some 5 \<and> (5::real) \<noteq> 0
   \<and> optimize_unit registry (Quantity (Scalar 5) (CompositeUnit 1 []) :: int obj) False
        = Inl IndexError
   \<and> optimize_unit registry (Quantity (Scalar 5) (CompositeUnit 1 []) :: int obj) True
        = Inl IndexError"
proof -
  have m: "mean_value (Scalar 5) = Some 5"
    by (simp add: mean_value_def)
  from optimize_unit_no_bases [where ?'a = int, OF m, of registry 1 False]
       optimize_unit_no_bases [where ?'a = int, OF m, of registry 1 True]
  show ?thesis using m by simp
qed

section \<open>The flip keeps the magnitude\<close>
































end
